theory Spec2Isabelle
  imports Main
begin

section \<open>Go values shared by the packages\<close>

text \<open>
  Strings are byte sequences (\<open>string\<close>). A Go map that may be \<open>nil\<close> is an
  optional partial function; a pointer to an error struct held in an \<open>error\<close>
  interface is taken to be non-nil, so the struct itself stands for the pointer.
\<close>

subsection \<open>Package base: DomainError and NotFoundError\<close>

record DomainError =
  de_Code :: string
  de_Message :: string

subsection \<open>Package valid: the validator's field errors\<close>

text \<open>
  A \<open>validator.FieldError\<close> is read through \<open>Field()\<close>, \<open>Tag()\<close>, \<open>Param()\<close>
  and \<open>Error()\<close>; \<open>valid.Errors\<close> pairs the violations with the cache key of the
  validated struct type.
\<close>

record FieldError =
  fe_Field :: string
  fe_Tag :: string
  fe_Param :: string
  fe_Error :: string

record Errors =
  cacheKey :: string
  ValidationErrors :: "FieldError list"

subsection \<open>Package mux: BindingError and ErrorResponse\<close>

record BindingError =
  be_Message :: string
  be_Errors :: "(string \<rightharpoonup> string) option"

record ErrorResponse =
  er_Status :: int
  er_Error :: string
  er_Message :: string
  er_Errors :: "(string \<rightharpoonup> string) option"

record UnmarshalTypeError =
  ute_Value :: string
  ute_Type :: string
  ute_Offset :: int
  ute_Struct :: string
  ute_Field :: string

subsection \<open>The error interface\<close>

text \<open>
  An \<open>error\<close> is one of the concrete error types the packages produce or test for,
  or a wrapper: \<open>Wrap msg e\<close> is an error with \<open>Error() = msg\<close> and
  \<open>Unwrap() = e\<close> (as \<open>fmt.Errorf\<close> with one \<open>%w\<close> builds), \<open>Join es\<close> one with
  \<open>Unwrap() = es\<close> (\<open>errors.Join\<close>). \<open>ErrorString\<close> is any other error with no
  \<open>Unwrap\<close> (\<open>errors.New\<close>, \<open>fmt.Errorf\<close> without \<open>%w\<close>).
\<close>

datatype error =
    BindingErr BindingError
  | ValidErr Errors
  | NotFoundErr DomainError
  | DomainErr DomainError
  | ValidationErrs "FieldError list"
  | EOF
  | ErrUnexpectedEOF
  | MaxBytesErr int
  | SyntaxErr string int
  | UnmarshalTypeErr UnmarshalTypeError
  | InvalidUnmarshalErr string
  | ErrServerClosed
  | DeadlineExceeded
  | ErrorString string
  | Wrap string error
  | Join "error list"

fun strings_Join :: "string list \<Rightarrow> string \<Rightarrow> string" where
  "strings_Join [] sep = []"
| "strings_Join [x] sep = x"
| "strings_Join (x # y # ys) sep = x @ sep @ strings_Join (y # ys) sep"

fun error_Error :: "error \<Rightarrow> string" where
  "error_Error (BindingErr b) = be_Message b"
| "error_Error (ValidErr v) = strings_Join (map fe_Error (ValidationErrors v)) [CHR 0x0A]"
| "error_Error (NotFoundErr d) = de_Message d"
| "error_Error (DomainErr d) = de_Message d"
| "error_Error (ValidationErrs es) = strings_Join (map fe_Error es) [CHR 0x0A]"
| "error_Error EOF = ''EOF''"
| "error_Error ErrUnexpectedEOF = ''unexpected EOF''"
| "error_Error (MaxBytesErr n) = ''http: request body too large''"
| "error_Error (SyntaxErr msg off) = msg"
| "error_Error (UnmarshalTypeErr e) =
     (if ute_Struct e \<noteq> [] \<or> ute_Field e \<noteq> []
      then ''json: cannot unmarshal '' @ ute_Value e @ '' into Go struct field ''
           @ ute_Struct e @ ''.'' @ ute_Field e @ '' of type '' @ ute_Type e
      else ''json: cannot unmarshal '' @ ute_Value e @ '' into Go value of type '' @ ute_Type e)"
| "error_Error (InvalidUnmarshalErr t) = ''json: Unmarshal('' @ t @ '')''"
| "error_Error ErrServerClosed = ''http: Server closed''"
| "error_Error DeadlineExceeded = ''context deadline exceeded''"
| "error_Error (ErrorString s) = s"
| "error_Error (Wrap msg e) = msg"
| "error_Error (Join es) = strings_Join (map error_Error es) [CHR 0x0A]"

text \<open>
  \<open>errors.As\<close>: the chain is searched depth first, the error itself before what it
  unwraps to, the members of a joined error from left to right; the first error the
  target type accepts is stored in the target. The target type is the function
  \<open>target\<close>, which returns the matched value.
\<close>

fun errors_As :: "(error \<Rightarrow> 'a option) \<Rightarrow> error \<Rightarrow> 'a option"
  and errors_As_list :: "(error \<Rightarrow> 'a option) \<Rightarrow> error list \<Rightarrow> 'a option" where
  "errors_As target (Wrap msg e) =
     (case target (Wrap msg e) of Some t \<Rightarrow> Some t | None \<Rightarrow> errors_As target e)"
| "errors_As target (Join es) =
     (case target (Join es) of Some t \<Rightarrow> Some t | None \<Rightarrow> errors_As_list target es)"
| "errors_As target e = target e"
| "errors_As_list target [] = None"
| "errors_As_list target (e # es) =
     (case errors_As target e of Some t \<Rightarrow> Some t | None \<Rightarrow> errors_As_list target es)"

definition errors_Is :: "error \<Rightarrow> error \<Rightarrow> bool" where
  "errors_Is err target =
     (errors_As (\<lambda>e. if e = target then Some e else None) err \<noteq> None)"

definition as_BindingError :: "error \<Rightarrow> BindingError option" where
  "as_BindingError e = (case e of BindingErr b \<Rightarrow> Some b | _ \<Rightarrow> None)"

definition as_valid_Errors :: "error \<Rightarrow> Errors option" where
  "as_valid_Errors e = (case e of ValidErr v \<Rightarrow> Some v | _ \<Rightarrow> None)"

definition as_NotFoundError :: "error \<Rightarrow> DomainError option" where
  "as_NotFoundError e = (case e of NotFoundErr d \<Rightarrow> Some d | _ \<Rightarrow> None)"

definition as_DomainError :: "error \<Rightarrow> DomainError option" where
  "as_DomainError e = (case e of DomainErr d \<Rightarrow> Some d | _ \<Rightarrow> None)"

definition as_validationErrors :: "error \<Rightarrow> FieldError list option" where
  "as_validationErrors e = (case e of ValidationErrs es \<Rightarrow> Some es | _ \<Rightarrow> None)"

definition as_MaxBytesError :: "error \<Rightarrow> int option" where
  "as_MaxBytesError e = (case e of MaxBytesErr n \<Rightarrow> Some n | _ \<Rightarrow> None)"

definition as_SyntaxError :: "error \<Rightarrow> (string \<times> int) option" where
  "as_SyntaxError e = (case e of SyntaxErr m off \<Rightarrow> Some (m, off) | _ \<Rightarrow> None)"

definition as_UnmarshalTypeError :: "error \<Rightarrow> UnmarshalTypeError option" where
  "as_UnmarshalTypeError e = (case e of UnmarshalTypeErr u \<Rightarrow> Some u | _ \<Rightarrow> None)"

definition as_InvalidUnmarshalError :: "error \<Rightarrow> string option" where
  "as_InvalidUnmarshalError e = (case e of InvalidUnmarshalErr t \<Rightarrow> Some t | _ \<Rightarrow> None)"

section \<open>Control outcomes, the log and the response writer\<close>

text \<open>
  A call returns, panics with a value, or ends the process (\<open>os.Exit\<close>). Since Go
  1.21 \<open>recover()\<close> is non-nil for every panic (\<open>panic(nil)\<close> arrives as a
  \<open>*runtime.PanicNilError\<close>), so every panic carries a value.
\<close>

datatype panic_value = PanicErr error | PanicVal string

datatype 'a outcome = Returns 'a | Panics panic_value | Exits int

datatype level = InfoLevel | WarnLevel | ErrorLevel | FatalLevel

datatype arg = AStr string | AErr error | APanic panic_value

type_synonym log_entry = "level \<times> string \<times> arg list"

text \<open>
  The bytes \<open>json.Marshal\<close> produces for an \<open>ErrorResponse\<close> are kept as the value
  they encode. The response writer records the calls made on it; \<open>rsp_Write_err\<close>
  is what \<open>w.Write\<close> returns on this connection (\<open>None\<close> for a healthy one).
\<close>

datatype payload = Marshalled ErrorResponse

datatype call = Header_Set string string | WriteHeader int | Write payload

record state =
  rsp :: "call list"
  rsp_Write_err :: "error option"
  logs :: "log_entry list"
  fieldCache :: "string \<rightharpoonup> (string \<rightharpoonup> string)"

record Context =
  ctx_Method :: string
  ctx_URI :: string
  requestID :: string

definition log_Info :: "string \<Rightarrow> arg list \<Rightarrow> state \<Rightarrow> state" where
  "log_Info msg args s = s\<lparr>logs := logs s @ [(InfoLevel, msg, args)]\<rparr>"

definition log_Error :: "string \<Rightarrow> arg list \<Rightarrow> state \<Rightarrow> state" where
  "log_Error msg args s = s\<lparr>logs := logs s @ [(ErrorLevel, msg, args)]\<rparr>"

definition rsp_call :: "call \<Rightarrow> state \<Rightarrow> state" where
  "rsp_call c s = s\<lparr>rsp := rsp s @ [c]\<rparr>"

definition rsp_Write :: "payload \<Rightarrow> state \<Rightarrow> error option \<times> state" where
  "rsp_Write b s = (rsp_Write_err s, rsp_call (Write b) s)"

section \<open>Package mux: writing responses\<close>

definition StatusBadRequest :: int where "StatusBadRequest = 400"
definition StatusNotFound :: int where "StatusNotFound = 404"
definition StatusInternalServerError :: int where "StatusInternalServerError = 500"

text \<open>\<open>json.Marshal\<close> of an \<open>ErrorResponse\<close> (an int, two strings, a string map) cannot fail.\<close>

definition json_Marshal :: "ErrorResponse \<Rightarrow> error + payload" where
  "json_Marshal body = Inr (Marshalled body)"

text \<open>
  \<open>encode\<close>: marshal, copy the extra headers, set the content type, write the status
  and the body. The result of \<open>w.Write\<close> is assigned to \<open>err\<close> and the function then
  returns \<open>nil\<close>.
\<close>

definition encode :: "int \<Rightarrow> ErrorResponse \<Rightarrow> (string \<times> string) list \<Rightarrow> state \<Rightarrow> error option \<times> state" where
  "encode status body headers s =
     (case json_Marshal body of
        Inl err \<Rightarrow> (Some err, s)
      | Inr b \<Rightarrow>
          (let s1 = fold (\<lambda>(h, v). rsp_call (Header_Set h v)) headers s;
               s2 = rsp_call (Header_Set ''Content-Type'' ''application/json'') s1;
               s3 = rsp_call (WriteHeader status) s2;
               (err, s4) = rsp_Write b s3
           in (None, s4)))"

definition NotFound :: "ErrorResponse \<Rightarrow> state \<Rightarrow> error option \<times> state" where
  "NotFound body s = encode StatusNotFound body [] s"

definition BadRequest :: "ErrorResponse \<Rightarrow> state \<Rightarrow> error option \<times> state" where
  "BadRequest body s = encode StatusBadRequest body [] s"

definition InternalServerError :: "ErrorResponse \<Rightarrow> state \<Rightarrow> error option \<times> state" where
  "InternalServerError body s = encode StatusInternalServerError body [] s"

definition internalServerError :: "state \<Rightarrow> state" where
  "internalServerError s =
     (let response = \<lparr>er_Status = StatusInternalServerError, er_Error = ''INTERNAL_ERROR'',
                       er_Message = ''Something went wrong'', er_Errors = None\<rparr>
      in case InternalServerError response s of
           (Some err, s1) \<Rightarrow> log_Error ''mux: failed to send response'' [AStr ''error'', AErr err] s1
         | (None, s1) \<Rightarrow> s1)"

definition sendDomainErrorResponse :: "DomainError \<Rightarrow> state \<Rightarrow> state" where
  "sendDomainErrorResponse d s =
     (let response = \<lparr>er_Status = StatusBadRequest, er_Error = ''DOMAIN_ERROR'',
                       er_Message = de_Message d, er_Errors = None\<rparr>
      in case BadRequest response s of
           (Some err, s1) \<Rightarrow>
             internalServerError (log_Error ''mux: failed to respond'' [AStr ''error'', AErr err] s1)
         | (None, s1) \<Rightarrow> s1)"

definition sendNotFoundErrorResponse :: "DomainError \<Rightarrow> state \<Rightarrow> state" where
  "sendNotFoundErrorResponse d s =
     (let response = \<lparr>er_Status = StatusNotFound, er_Error = ''DOMAIN_ERROR'',
                       er_Message = de_Message d, er_Errors = None\<rparr>
      in case NotFound response s of
           (Some err, s1) \<Rightarrow>
             internalServerError (log_Error ''mux: failed to respond'' [AStr ''error'', AErr err] s1)
         | (None, s1) \<Rightarrow> s1)"

definition sendDecodeErrorResponse :: "BindingError \<Rightarrow> state \<Rightarrow> state" where
  "sendDecodeErrorResponse e s =
     (let response = \<lparr>er_Status = StatusBadRequest, er_Error = ''DECODE_ERROR'',
                       er_Message = error_Error (BindingErr e), er_Errors = be_Errors e\<rparr>
      in case BadRequest response s of
           (Some err, s1) \<Rightarrow>
             internalServerError (log_Error ''binding: failed to respond'' [AStr ''error'', AErr err] s1)
         | (None, s1) \<Rightarrow> s1)"

section \<open>Package valid\<close>

subsection \<open>String helpers of the standard library\<close>

text \<open>
  \<open>strings.ToLower\<close> on ASCII letters (bytes outside \<open>A\<close>..\<open>Z\<close> are kept);
  \<open>strings.Split\<close> with a one-byte separator, which always returns at least one
  piece.
\<close>

definition toLower_char :: "char \<Rightarrow> char" where
  "toLower_char c =
     (case map_of (zip ''ABCDEFGHIJKLMNOPQRSTUVWXYZ'' ''abcdefghijklmnopqrstuvwxyz'') c of
        Some l \<Rightarrow> l
      | None \<Rightarrow> c)"

definition strings_ToLower :: "string \<Rightarrow> string" where
  "strings_ToLower s = map toLower_char s"

fun strings_Split :: "string \<Rightarrow> char \<Rightarrow> string list" where
  "strings_Split [] sep = [[]]"
| "strings_Split (c # cs) sep =
     (if c = sep then [] # strings_Split cs sep
      else (case strings_Split cs sep of
              [] \<Rightarrow> [[c]]
            | p # ps \<Rightarrow> (c # p) # ps))"

subsection \<open>Struct types as reflection shows them\<close>

text \<open>
  A \<open>reflect.StructField\<close> has a name and a tag; \<open>Tag.Get key\<close> is the value
  stored under \<open>key\<close>, or the empty string. A type (after the pointer is removed) has
  its \<open>String()\<close> and, when its kind is struct, its fields; \<open>NumField\<close> panics on any
  other kind.
\<close>

record StructField =
  sf_Name :: string
  sf_Tag :: "string \<rightharpoonup> string"

record go_type =
  ty_String :: string
  ty_Fields :: "StructField list option"

definition Tag_Get :: "StructField \<Rightarrow> string \<Rightarrow> string" where
  "Tag_Get field key = (case sf_Tag field key of None \<Rightarrow> [] | Some v \<Rightarrow> v)"

definition fieldTagValue :: "StructField \<Rightarrow> string" where
  "fieldTagValue field =
     (let value = Tag_Get field ''json'' in
      if value \<noteq> [] \<and> value \<noteq> ''-'' then hd (strings_Split value (CHR '',''))
      else
        (let value = Tag_Get field ''query'' in
         if value \<noteq> [] \<and> value \<noteq> ''-'' then hd (strings_Split value (CHR '',''))
         else strings_ToLower (sf_Name field)))"

definition structCacheKey :: "go_type \<Rightarrow> string" where
  "structCacheKey t = ty_String t"

definition cacheTypeFields :: "go_type \<Rightarrow> state \<Rightarrow> string outcome \<times> state" where
  "cacheTypeFields t s =
     (let key = structCacheKey t in
      case fieldCache s key of
        Some cached \<Rightarrow> (Returns key, s)
      | None \<Rightarrow>
          (case ty_Fields t of
             None \<Rightarrow> (Panics (PanicVal ''reflect: NumField of non-struct type''), s)
           | Some fs \<Rightarrow>
               (let fieldsMap = fold (\<lambda>field m. m(sf_Name field \<mapsto> fieldTagValue field))
                                     fs Map.empty
                in (Returns key, s\<lparr>fieldCache := (fieldCache s)(key \<mapsto> fieldsMap)\<rparr>))))"

text \<open>
  \<open>Struct\<close>: \<open>verr\<close> is what the validator library's \<open>validate.Struct\<close> returns for
  the value.
\<close>

definition Struct :: "go_type \<Rightarrow> error option \<Rightarrow> state \<Rightarrow> error option outcome \<times> state" where
  "Struct t verr s =
     (case cacheTypeFields t s of
        (Panics p, s1) \<Rightarrow> (Panics p, s1)
      | (Exits c, s1) \<Rightarrow> (Exits c, s1)
      | (Returns key, s1) \<Rightarrow>
          (case verr of
             None \<Rightarrow> (Returns None, s1)
           | Some err \<Rightarrow>
               (case errors_As as_validationErrors err of
                  None \<Rightarrow> (Returns (Some err), s1)
                | Some vrr \<Rightarrow>
                    (Returns (Some (ValidErr \<lparr>cacheKey = key, ValidationErrors = vrr\<rparr>)), s1))))"

definition errorMsg :: "string \<Rightarrow> string \<Rightarrow> string" where
  "errorMsg tag param =
    (if tag = ''required'' then ''is required''
     else if tag = ''email'' then ''Please provide a valid ''
     else if tag = ''min'' then ''must be at least '' @ param @ '' characters''
     else if tag = ''max'' then ''cannot be more than '' @ param @ '' characters''
     else if tag = ''gte'' then ''must be greater than or equal to '' @ param
     else if tag = ''lte'' then ''must be less than or equal to '' @ param
     else if tag = ''len'' then ''must be exactly '' @ param @ '' characters''
     else if tag = ''uuid'' then ''must be a valid UUID''
     else if tag = ''alpha'' then ''must contain only alphabetic characters''
     else if tag = ''alphanum'' then ''must contain only alphanumeric characters''
     else if tag = ''numeric'' then ''must be a numeric value''
     else if tag = ''url'' then ''must be a valid URL''
     else if tag = ''ip'' then ''must be a valid IP address''
     else if tag = ''ipv4'' then ''must be a valid IPv4 address''
     else if tag = ''ipv6'' then ''must be a valid IPv6 address''
     else if tag = ''gt'' then ''must be greater than '' @ param
     else if tag = ''lt'' then ''must be less than '' @ param
     else if tag = ''datetime'' then ''must be a valid datetime''
     else if tag = ''oneof''
       then ''must be one of: ['' @ strings_Join (strings_Split param (CHR '' '')) '','' @ '']''
     else if tag = ''eq'' \<or> tag = ''eqfield'' then ''must be equal to '' @ param
     else if tag = ''gtfield'' then ''must be greater than '' @ param
     else if tag = ''ltfield'' then ''must be less than '' @ param
     else if tag = ''nefield'' then ''must not be equal to '' @ param
     else if tag = ''eqcsfield'' then ''must be equal to the related field '' @ param
     else if tag = ''gtcsfield'' then ''must be greater than the related field '' @ param
     else if tag = ''ltcsfield'' then ''must be less than the related field '' @ param
     else if tag = ''cidr'' then ''must be a valid CIDR address''
     else if tag = ''cidrv4'' then ''must be a valid CIDR IPv4 address''
     else if tag = ''cidrv6'' then ''must be a valid CIDR IPv6 address''
     else if tag = ''hostname'' then ''must be a valid hostname''
     else if tag = ''hostname_port'' then ''must be a valid Host:Port''
     else if tag = ''ip4_addr'' then ''must be a valid IPv4 address''
     else if tag = ''ip6_addr'' then ''must be a valid IPv6 address''
     else if tag = ''mac'' then ''must be a valid MAC address''
     else if tag = ''alphaunicode'' then ''must contain only unicode alphabetic characters''
     else if tag = ''alphanumunicode'' then ''must contain only unicode alphanumeric characters''
     else if tag = ''ascii'' then ''must contain only ASCII characters''
     else if tag = ''contains'' then ''must contain the specified characters''
     else if tag = ''containsany'' then ''must contain any of the specified characters''
     else if tag = ''lowercase'' then ''must be lowercase''
     else if tag = ''uppercase'' then ''must be uppercase''
     else if tag = ''base64'' then ''must be a valid Base64 encoded string''
     else if tag = ''uuid3'' \<or> tag = ''uuid4'' \<or> tag = ''uuid5''
       then ''must be a valid UUID v3, v4, or v5''
     else if tag = ''json'' then ''must be a valid JSON string''
     else if tag = ''credit_card'' then ''must be a valid credit card number''
     else if tag = ''dir'' then ''must be an existing directory''
     else if tag = ''file'' then ''must be an existing file''
     else if tag = ''image'' then ''must be a valid image file''
     else if tag = ''unique'' then ''must be unique''
     else ''is invalid'')"

text \<open>The key under which a violation is stored: the cached name of the field, or the
  lowercased field name when the cached map has no entry for it.\<close>

definition fieldName :: "(string \<rightharpoonup> string) \<Rightarrow> FieldError \<Rightarrow> string" where
  "fieldName fieldMap e =
     (case fieldMap (fe_Field e) of
        Some name \<Rightarrow> name
      | None \<Rightarrow> strings_ToLower (fe_Field e))"

definition ExtractFieldErrors :: "state \<Rightarrow> Errors \<Rightarrow> (string \<rightharpoonup> string)" where
  "ExtractFieldErrors s vrr =
     (let fieldMap = (case fieldCache s (cacheKey vrr) of
                        Some cached \<Rightarrow> cached
                      | None \<Rightarrow> Map.empty)
      in fold (\<lambda>e errorMap. errorMap(fieldName fieldMap e \<mapsto> errorMsg (fe_Tag e) (fe_Param e)))
              (ValidationErrors vrr) Map.empty)"

section \<open>Package mux: the router's request handling\<close>

definition sendValidationErrorResponse :: "Errors \<Rightarrow> state \<Rightarrow> state" where
  "sendValidationErrorResponse e s =
     (let response = \<lparr>er_Status = StatusBadRequest, er_Error = ''VALIDATION_ERROR'',
                       er_Message = ''Invalid Request'',
                       er_Errors = Some (ExtractFieldErrors s e)\<rparr>
      in case BadRequest response s of
           (Some err, s1) \<Rightarrow>
             internalServerError (log_Error ''validate: failed to respond'' [AStr ''error'', AErr err] s1)
         | (None, s1) \<Rightarrow> s1)"

type_synonym Handler = "Context \<Rightarrow> state \<Rightarrow> error option outcome \<times> state"

type_synonym MiddlewareFunc = "Handler \<Rightarrow> Handler"

text \<open>
  The body of \<open>handleRequest\<close>, before its deferred function runs: the handler's
  error is logged and tested against the four error types in the order of the source.
\<close>

definition handleRequest_body :: "Context \<Rightarrow> Handler \<Rightarrow> state \<Rightarrow> unit outcome \<times> state" where
  "handleRequest_body ctx h s =
     (case h ctx s of
        (Panics p, s1) \<Rightarrow> (Panics p, s1)
      | (Exits c, s1) \<Rightarrow> (Exits c, s1)
      | (Returns None, s1) \<Rightarrow> (Returns (), s1)
      | (Returns (Some err), s1) \<Rightarrow>
          (let s2 = log_Error ''mux: Error in handler''
                      [AStr ''method'', AStr (ctx_Method ctx), AStr ''url'', AStr (ctx_URI ctx),
                       AStr ''error'', AErr err] s1
           in case errors_As as_BindingError err of
                Some b \<Rightarrow> (Returns (), sendDecodeErrorResponse b s2)
              | None \<Rightarrow>
             (case errors_As as_valid_Errors err of
                Some v \<Rightarrow> (Returns (), sendValidationErrorResponse v s2)
              | None \<Rightarrow>
             (case errors_As as_NotFoundError err of
                Some n \<Rightarrow> (Returns (), sendNotFoundErrorResponse n s2)
              | None \<Rightarrow>
             (case errors_As as_DomainError err of
                Some d \<Rightarrow> (Returns (), sendDomainErrorResponse d s2)
              | None \<Rightarrow>
                  (Returns (),
                   log_Error ''mux: Error handling request''
                     [AStr ''url'', AStr (ctx_URI ctx), AStr ''error'', AErr err]
                     (internalServerError s2)))))))"

text \<open>
  \<open>handleRequest\<close> with its deferred function: a panic of the body is recovered,
  logged and answered by \<open>internalServerError\<close>; the function then returns normally.
  Deferred functions do not run when the process exits.
\<close>

definition handleRequest :: "Context \<Rightarrow> Handler \<Rightarrow> state \<Rightarrow> unit outcome \<times> state" where
  "handleRequest ctx h s =
     (case handleRequest_body ctx h s of
        (Panics rec, s1) \<Rightarrow>
          (Returns (),
           internalServerError
             (log_Error ''mux: Panic in request handler''
                [AStr ''method'', AStr (ctx_Method ctx), AStr ''url'', AStr (ctx_URI ctx),
                 AStr ''error'', APanic rec] s1))
      | (Exits c, s1) \<Rightarrow> (Exits c, s1)
      | (Returns u, s1) \<Rightarrow> (Returns u, s1))"

text \<open>The calls that one response with a status and a body makes on the writer.\<close>

definition response_calls :: "int \<Rightarrow> ErrorResponse \<Rightarrow> call list" where
  "response_calls status body =
     [Header_Set ''Content-Type'' ''application/json'', WriteHeader status, Write (Marshalled body)]"

text \<open>A fresh connection with a healthy writer, and a request, for the examples.\<close>

definition conn0 :: state where
  "conn0 = \<lparr>rsp = [], rsp_Write_err = None, logs = [], fieldCache = Map.empty\<rparr>"

definition ctx0 :: Context where
  "ctx0 = \<lparr>ctx_Method = ''GET'', ctx_URI = ''/items/7'', requestID = ''r1''\<rparr>"

section \<open>Package mux: the router\<close>

record Config =
  Port :: string
  ReadTimeout :: int
  WriteTimeout :: int
  IdleTimeout :: int
  MaxHeaderBytes :: int
  GracefulShutdown :: int
  AllowedOrigins :: "string list"

type_synonym http_Handler = "Context \<Rightarrow> state \<Rightarrow> unit outcome \<times> state"

record router =
  config :: Config
  mux :: "string \<rightharpoonup> http_Handler"
  mwares :: "MiddlewareFunc list"
  handlers :: "string \<rightharpoonup> Handler"

definition NewRouter :: "Config \<Rightarrow> router" where
  "NewRouter cfg = \<lparr>config = cfg, mux = Map.empty, mwares = [], handlers = Map.empty\<rparr>"

text \<open>
  \<open>log.Fatal\<close> hands the entry to the logger's fatal event, which writes it and ends
  the process with \<open>os.Exit(1)\<close>; the call does not return.
\<close>

definition log_Fatal :: "string \<Rightarrow> arg list \<Rightarrow> state \<Rightarrow> unit outcome \<times> state" where
  "log_Fatal msg args s = (Exits 1, s\<lparr>logs := logs s @ [(FatalLevel, msg, args)]\<rparr>)"

definition Handle :: "string \<Rightarrow> Handler \<Rightarrow> router \<Rightarrow> state \<Rightarrow> router outcome \<times> state" where
  "Handle pattern h r s =
     (let store = (\<lambda>s'. (Returns (r\<lparr>handlers := (handlers r)(pattern \<mapsto> h)\<rparr>), s')) in
      case handlers r pattern of
        Some found \<Rightarrow>
          (case log_Fatal ''mux: Handler already exists'' [AStr ''pattern'', AStr pattern] s of
             (Returns u, s1) \<Rightarrow> store s1
           | (Panics p, s1) \<Rightarrow> (Panics p, s1)
           | (Exits c, s1) \<Rightarrow> (Exits c, s1))
      | None \<Rightarrow> store s)"

text \<open>A start-up sequence of \<open>Handle\<close> calls, as a program makes before it serves.\<close>

fun register_routes :: "(string \<times> Handler) list \<Rightarrow> router \<Rightarrow> state \<Rightarrow> router outcome \<times> state" where
  "register_routes [] r s = (Returns r, s)"
| "register_routes ((pattern, h) # rest) r s =
     (case Handle pattern h r s of
        (Returns r1, s1) \<Rightarrow> register_routes rest r1 s1
      | (Panics p, s1) \<Rightarrow> (Panics p, s1)
      | (Exits c, s1) \<Rightarrow> (Exits c, s1))"

definition Use :: "MiddlewareFunc list \<Rightarrow> router \<Rightarrow> router" where
  "Use middleware r = r\<lparr>mwares := mwares r @ middleware\<rparr>"

text \<open>The loop of \<open>applyMiddlewares\<close>: \<open>i\<close> runs from \<open>len - 1\<close> down to \<open>0\<close>.\<close>

function applyMiddlewares_loop :: "MiddlewareFunc list \<Rightarrow> int \<Rightarrow> Handler \<Rightarrow> Handler" where
  "applyMiddlewares_loop ms i h =
     (if i \<ge> 0 then applyMiddlewares_loop ms (i - 1) ((ms ! nat i) h) else h)"
  by pat_completeness auto
termination
  by (relation "measure (\<lambda>(ms, i, h). nat (i + 1))") auto

definition applyMiddlewares :: "router \<Rightarrow> Handler \<Rightarrow> Handler" where
  "applyMiddlewares r h = applyMiddlewares_loop (mwares r) (int (length (mwares r)) - 1) h"

text \<open>\<open>httpHandler\<close>: the context is the one \<open>newContext\<close> builds for the request.\<close>

definition httpHandler :: "Handler \<Rightarrow> http_Handler" where
  "httpHandler h = (\<lambda>ctx s. handleRequest ctx h s)"

text \<open>
  \<open>ListenAndServe\<close>. The \<open>select\<close> ends with one of two events: the listener's
  goroutine delivers the result of \<open>server.ListenAndServe\<close> on \<open>done\<close>, or a signal
  arrives on \<open>quit\<close>. \<open>shutdown\<close> is \<open>server.Shutdown\<close> as a function of the drain
  time-out in seconds; \<open>muxPanic\<close> is the panic \<open>http.ServeMux.Handle\<close> raises while
  the routes are registered, when a pattern is malformed or conflicts with another.
  The start-up line that the listener's goroutine logs on its own is not part of the
  controller's log.
\<close>

datatype terminal_event = ListenerDone "error option" | QuitSignal

definition ListenAndServe ::
  "router \<Rightarrow> panic_value option \<Rightarrow> terminal_event \<Rightarrow> (int \<Rightarrow> error option) \<Rightarrow> state
     \<Rightarrow> error option outcome \<times> router \<times> state" where
  "ListenAndServe r muxPanic ev shutdown s =
     (case muxPanic of
        Some p \<Rightarrow> (Panics p, r, s)
      | None \<Rightarrow>
          (let r1 = r\<lparr>mux := (\<lambda>pattern.
                       case handlers r pattern of
                         Some handler \<Rightarrow> Some (httpHandler (applyMiddlewares r handler))
                       | None \<Rightarrow> mux r pattern)\<rparr>
           in case ev of
                ListenerDone err \<Rightarrow>
                  (case err of
                     Some e \<Rightarrow>
                       if \<not> errors_Is e ErrServerClosed
                       then (Returns (Some e), r1,
                             log_Error ''mux: Server error occurred'' [AStr ''error'', AErr e] s)
                       else (Returns None, r1, s)
                   | None \<Rightarrow> (Returns None, r1, s))
              | QuitSignal \<Rightarrow>
                  (let s1 = log_Info ''mux: Shutdown signal received, shutting down server...'' [] s
                   in case shutdown (GracefulShutdown (config r)) of
                        Some e \<Rightarrow>
                          (Returns (Some e), r1,
                           log_Error ''mux: Error during server shutdown'' [AStr ''error'', AErr e] s1)
                      | None \<Rightarrow>
                          (Returns None, r1, log_Info ''mux: Server gracefully stopped'' [] s1))))"

text \<open>
  A middleware that runs \<open>pre\<close> on the way in, then the next handler, and \<open>post\<close> on
  the way out once the next handler has returned.
\<close>

definition around :: "(state \<Rightarrow> state) \<Rightarrow> (state \<Rightarrow> state) \<Rightarrow> MiddlewareFunc" where
  "around pre post next =
     (\<lambda>ctx s. case next ctx (pre s) of
                (Returns e, s1) \<Rightarrow> (Returns e, post s1)
              | (Panics p, s1) \<Rightarrow> (Panics p, s1)
              | (Exits c, s1) \<Rightarrow> (Exits c, s1))"


text \<open>A configuration for the examples: a drain time-out of two seconds.\<close>

definition cfg0 :: Config where
  "cfg0 = \<lparr>Port = ''8080'', ReadTimeout = 0, WriteTimeout = 0, IdleTimeout = 0,
            MaxHeaderBytes = 1048576, GracefulShutdown = 2, AllowedOrigins = [''*'']\<rparr>"

section \<open>Package mux: the binder\<close>

subsection \<open>Formatting and string helpers of the standard library\<close>

text \<open>
  \<open>%d\<close> of an integer; \<open>%q\<close> of a string, where the quote and the backslash are
  escaped (other bytes are kept); \<open>strings.HasPrefix\<close>, \<open>strings.TrimPrefix\<close>,
  \<open>strings.Replace\<close> of the first or of all occurrences of a non-empty string,
  \<open>strings.TrimSpace\<close> on ASCII white space.
\<close>

fun show_nat :: "nat \<Rightarrow> string" where
  "show_nat n =
     (if n < 10 then [''0123456789'' ! n] else show_nat (n div 10) @ [''0123456789'' ! (n mod 10)])"

definition show_int :: "int \<Rightarrow> string" where
  "show_int i = (if i < 0 then CHR ''-'' # show_nat (nat (- i)) else show_nat (nat i))"

definition strconv_Quote :: "string \<Rightarrow> string" where
  "strconv_Quote s =
     CHR 0x22 # concat (map (\<lambda>c. if c = CHR 0x22 \<or> c = CHR 0x5C then [CHR 0x5C, c] else [c]) s)
       @ [CHR 0x22]"

definition strings_HasPrefix :: "string \<Rightarrow> string \<Rightarrow> bool" where
  "strings_HasPrefix s prefix = (take (length prefix) s = prefix)"

definition strings_TrimPrefix :: "string \<Rightarrow> string \<Rightarrow> string" where
  "strings_TrimPrefix s prefix = (if strings_HasPrefix s prefix then drop (length prefix) s else s)"

fun strings_Index :: "string \<Rightarrow> string \<Rightarrow> nat option" where
  "strings_Index [] sub = (if sub = [] then Some 0 else None)"
| "strings_Index (c # cs) sub =
     (if strings_HasPrefix (c # cs) sub then Some 0 else map_option Suc (strings_Index cs sub))"

definition strings_Replace_first :: "string \<Rightarrow> string \<Rightarrow> string \<Rightarrow> string" where
  "strings_Replace_first s old new =
     (case strings_Index s old of
        None \<Rightarrow> s
      | Some i \<Rightarrow> take i s @ new @ drop (i + length old) s)"

text \<open>\<open>skip\<close> counts the bytes of a matched occurrence that are still to be passed over.\<close>

fun strings_Replace_scan :: "string \<Rightarrow> string \<Rightarrow> nat \<Rightarrow> string \<Rightarrow> string" where
  "strings_Replace_scan old new skip [] = []"
| "strings_Replace_scan old new (Suc skip) (c # cs) = strings_Replace_scan old new skip cs"
| "strings_Replace_scan old new 0 (c # cs) =
     (if strings_HasPrefix (c # cs) old
      then new @ strings_Replace_scan old new (length old - 1) cs
      else c # strings_Replace_scan old new 0 cs)"

definition strings_Replace_all :: "string \<Rightarrow> string \<Rightarrow> string \<Rightarrow> string" where
  "strings_Replace_all s old new = strings_Replace_scan old new 0 s"

definition isSpace :: "char \<Rightarrow> bool" where
  "isSpace c = (c \<in> set [CHR '' '', CHR 0x09, CHR 0x0A, CHR 0x0B, CHR 0x0C, CHR 0x0D])"

definition strings_TrimSpace :: "string \<Rightarrow> string" where
  "strings_TrimSpace s = rev (dropWhile isSpace (rev (dropWhile isSpace s)))"

subsection \<open>The JSON body\<close>

definition newBindingError :: "string \<Rightarrow> BindingError" where
  "newBindingError msg = \<lparr>be_Message = msg, be_Errors = None\<rparr>"

text \<open>
  \<open>http.MaxBytesReader\<close>: a reader that yields the body when it has at most \<open>n\<close>
  bytes and then ends with \<open>io.EOF\<close>, and otherwise yields its first \<open>n\<close> bytes and
  then fails with a \<open>MaxBytesError\<close> whose limit is \<open>n\<close>.
\<close>

record body_reader =
  rd_data :: string
  rd_end :: error

definition MaxBytesReader :: "string \<Rightarrow> int \<Rightarrow> body_reader" where
  "MaxBytesReader body n =
     (if int (length body) > n
      then \<lparr>rd_data = take (nat n) body, rd_end = MaxBytesErr n\<rparr>
      else \<lparr>rd_data = body, rd_end = EOF\<rparr>)"

text \<open>
  The \<open>encoding/json\<close> decoder, with unknown fields disallowed, as the library gives
  it: \<open>jd_first\<close> is \<open>decoder.Decode(v)\<close> on the reader (its error and the target as
  it leaves it), \<open>jd_second\<close> the \<open>decoder.Decode(&struct{}{})\<close> that follows a
  successful first call.
\<close>

record 'v json_Decoder =
  jd_first :: "body_reader \<Rightarrow> 'v \<Rightarrow> error option \<times> 'v"
  jd_second :: "body_reader \<Rightarrow> error option"

definition decode :: "'v json_Decoder \<Rightarrow> string \<Rightarrow> 'v \<Rightarrow> error option outcome \<times> 'v" where
  "decode decoder body v =
     (let maxBytes = 1048576;
          r_Body = MaxBytesReader body maxBytes;
          (err, v1) = jd_first decoder r_Body v
      in case err of
           None \<Rightarrow>
             (if jd_second decoder r_Body \<noteq> Some EOF
              then (Returns (Some (BindingErr
                      (newBindingError ''body must only contain a single JSON value''))), v1)
              else (Returns None, v1))
         | Some e \<Rightarrow>
             (if errors_As as_InvalidUnmarshalError e \<noteq> None then (Panics (PanicErr e), v1)
              else if errors_Is e EOF
                then (Returns (Some (BindingErr (newBindingError ''body must be valid JSON''))), v1)
              else if errors_Is e ErrUnexpectedEOF
                then (Returns (Some (BindingErr
                        (newBindingError ''body contains badly-formed JSON''))), v1)
              else (case errors_As as_MaxBytesError e of
                 Some limit \<Rightarrow>
                   (Returns (Some (BindingErr (newBindingError
                      (''body must not exceed '' @ show_int limit @ '' bytes'')))), v1)
               | None \<Rightarrow>
              if strings_HasPrefix (error_Error e) ''json: unknown field ''
                then (let fieldName = strings_TrimPrefix (error_Error e) ''json: unknown field ''
                      in (Returns (Some (BindingErr (newBindingError
                            (''body contains unknown keys '' @ fieldName)))), v1))
              else if errors_As as_SyntaxError e \<noteq> None
                then (Returns (Some (BindingErr (newBindingError
                        ''body contains badly-formed JSON and can not be parsed''))), v1)
              else (case errors_As as_UnmarshalTypeError e of
                 Some u \<Rightarrow>
                   (if ute_Field u \<noteq> []
                    then (Returns (Some (BindingErr (newBindingError
                            (''body contains incorrect JSON type for field ''
                             @ strconv_Quote (ute_Field u))))), v1)
                    else (Returns (Some (BindingErr (newBindingError
                            (''body contains incorrect JSON value that was not appropriate for the request body (at character ''
                             @ show_int (ute_Offset u) @ '')'')))), v1))
               | None \<Rightarrow> (Returns (Some e), v1)))))"

subsection \<open>The query string\<close>

text \<open>
  \<open>extractAndRemove\<close>: the regular expression \<open>'([^']+)'\<close> matches, leftmost, a
  quote, a non-empty run of bytes other than the quote, and a quote.
\<close>

fun find_quoted :: "string \<Rightarrow> string option" where
  "find_quoted [] = None"
| "find_quoted (c # cs) =
     (if c = CHR 0x27
      then (let run = takeWhile (\<lambda>x. x \<noteq> CHR 0x27) cs;
                rest = dropWhile (\<lambda>x. x \<noteq> CHR 0x27) cs
            in if run \<noteq> [] \<and> rest \<noteq> [] then Some run else find_quoted cs)
      else find_quoted cs)"

definition extractAndRemove :: "string \<Rightarrow> string \<times> string" where
  "extractAndRemove input =
     (case find_quoted input of
        Some value \<Rightarrow>
          (value, strings_TrimSpace
                    (strings_Replace_first input ([CHR 0x27] @ value @ [CHR 0x27]) []))
      | None \<Rightarrow> ([], input))"

definition mapstructFieldErrors :: "string \<Rightarrow> (string \<rightharpoonup> string)" where
  "mapstructFieldErrors fieldError =
     fold (\<lambda>line m. case extractAndRemove line of (field, message) \<Rightarrow> m(field \<mapsto> message))
          (strings_Split fieldError (CHR 0x0A)) Map.empty"

text \<open>
  A query parameter is a single string or the list of the key's values. The
  \<open>mapstructure\<close> library is given by the error of \<open>NewDecoder\<close> for the target and by
  \<open>decoder.Decode\<close> on the parameter map (weakly typed input, tag name \<open>query\<close>).
\<close>

datatype param = PString string | PList "string list"

record 'v mapstructure =
  ms_NewDecoder :: "'v \<Rightarrow> error option"
  ms_Decode :: "(string \<rightharpoonup> param) \<Rightarrow> 'v \<Rightarrow> error option \<times> 'v"

definition decodeURL :: "'v mapstructure \<Rightarrow> (string \<rightharpoonup> string list) \<Rightarrow> 'v \<Rightarrow> error option \<times> 'v" where
  "decodeURL lib query v =
     (let params = (\<lambda>key. case query key of
                       None \<Rightarrow> None
                     | Some values \<Rightarrow>
                         if length values = 1 then Some (PString (values ! 0))
                         else Some (PList values))
      in case ms_NewDecoder lib v of
           Some err \<Rightarrow> (Some (BindingErr \<lparr>be_Message = error_Error err, be_Errors = None\<rparr>), v)
         | None \<Rightarrow>
             (case ms_Decode lib params v of
                (Some err, v1) \<Rightarrow>
                  (let prefix = ''decoding failed due to the following error(s):'' @ [CHR 0x0A, CHR 0x0A];
                       fError = mapstructFieldErrors (strings_Replace_all (error_Error err) prefix [])
                   in (Some (BindingErr \<lparr>be_Message = ''Query Params Decoding Failed'',
                                         be_Errors = Some fError\<rparr>), v1))
              | (None, v1) \<Rightarrow> (None, v1)))"

subsection \<open>Context.Decode and Context.DecodeURL\<close>

text \<open>
  What the pipeline needs to know of the target: whether its type implements
  \<open>Normalizer\<close> (and then its \<open>Normalize\<close> method, which adjusts the target), its
  type as reflection shows it, and the result of the validator library's
  \<open>validate.Struct\<close> on a value.
\<close>

record 'v target =
  tg_Normalizer :: "(Context \<Rightarrow> 'v \<Rightarrow> 'v) option"
  tg_type :: go_type
  tg_validate :: "'v \<Rightarrow> error option"

definition Decode ::
  "'v json_Decoder \<Rightarrow> 'v target \<Rightarrow> Context \<Rightarrow> string \<Rightarrow> 'v \<Rightarrow> state
     \<Rightarrow> error option outcome \<times> 'v \<times> state" where
  "Decode decoder tg ctx body v s =
     (case decode decoder body v of
        (Panics p, v1) \<Rightarrow> (Panics p, v1, s)
      | (Exits c, v1) \<Rightarrow> (Exits c, v1, s)
      | (Returns (Some err), v1) \<Rightarrow> (Returns (Some err), v1, s)
      | (Returns None, v1) \<Rightarrow>
          (let v2 = (case tg_Normalizer tg of
                       Some normalizer \<Rightarrow> normalizer ctx v1
                     | None \<Rightarrow> v1)
           in case Struct (tg_type tg) (tg_validate tg v2) s of
                (res, s1) \<Rightarrow> (res, v2, s1)))"

definition DecodeURL ::
  "'v mapstructure \<Rightarrow> 'v target \<Rightarrow> Context \<Rightarrow> (string \<rightharpoonup> string list) \<Rightarrow> 'v \<Rightarrow> state
     \<Rightarrow> error option outcome \<times> 'v \<times> state" where
  "DecodeURL lib tg ctx query v s =
     (case decodeURL lib query v of
        (Some err, v1) \<Rightarrow> (Returns (Some err), v1, s)
      | (None, v1) \<Rightarrow>
          (let v2 = (case tg_Normalizer tg of
                       Some normalizer \<Rightarrow> normalizer ctx v1
                     | None \<Rightarrow> v1)
           in case Struct (tg_type tg) (tg_validate tg v2) s of
                (res, s1) \<Rightarrow> (res, v2, s1)))"



definition query_handler ::
  "'v mapstructure \<Rightarrow> 'v target \<Rightarrow> (string \<rightharpoonup> string list) \<Rightarrow> 'v \<Rightarrow> Handler" where
  "query_handler lib tg query v =
     (\<lambda>ctx s. case DecodeURL lib tg ctx query v s of (res, v1, s1) \<Rightarrow> (res, s1))"





text \<open>
  For the examples: a target holding one name, whose \<open>Normalize\<close> lowercases it and
  whose validation demands a non-empty lowercase name; a JSON decoder and a query
  decoder that fill it.
\<close>

definition name_decoder :: "string json_Decoder" where
  \<open>name_decoder =
     \<lparr>jd_first = (\<lambda>r v.
         if rd_data r = ''{"name":"BOB"}'' then (None, ''BOB'')
         else (Some (SyntaxErr ''unexpected end of JSON input'' 1), v)),
       jd_second = (\<lambda>r. Some EOF)\<rparr>\<close>

definition name_mapstructure :: "string mapstructure" where
  "name_mapstructure =
     \<lparr>ms_NewDecoder = (\<lambda>v. None),
      ms_Decode = (\<lambda>params v. case params ''name'' of
                     Some (PString x) \<Rightarrow> (None, x)
                   | Some (PList xs) \<Rightarrow>
                       (Some (ErrorString (''decoding failed due to the following error(s):''
                          @ [CHR 0x0A, CHR 0x0A, CHR 0x27] @ ''Name'' @ [CHR 0x27]
                          @ '' expected type string'')), v)
                   | None \<Rightarrow> (None, v))\<rparr>"

definition name_target :: "string target" where
  "name_target =
     \<lparr>tg_Normalizer = Some (\<lambda>ctx v. strings_ToLower v),
      tg_type = \<lparr>ty_String = ''main.Req'',
                 ty_Fields = Some [\<lparr>sf_Name = ''Name'', sf_Tag = [''json'' \<mapsto> ''name'']\<rparr>]\<rparr>,
      tg_validate = (\<lambda>v. if v \<noteq> [] \<and> v = strings_ToLower v then None
                          else Some (ValidationErrs
                                 [\<lparr>fe_Field = ''Name'', fe_Tag = ''lowercase'', fe_Param = [],
                                   fe_Error = ''Field validation for Name failed''\<rparr>]))\<rparr>"


text \<open>
  The input mapping of query decoding as the specification words it: a key with
  exactly one value goes to that value, any other key to the list of its values.
\<close>

definition flattened_query :: "(string \<rightharpoonup> string list) \<Rightarrow> (string \<rightharpoonup> param)" where
  "flattened_query query key =
     (case query key of
        None \<Rightarrow> None
      | Some [x] \<Rightarrow> Some (PString x)
      | Some values \<Rightarrow> Some (PList values))"

text \<open>
  For the examples: a target with the fields \<open>Ids []string\<close> and \<open>Name string\<close>, as
  the pair of their values, and a query decoder that fills it from the keys \<open>ids\<close>
  and \<open>name\<close>, a single string counting as a list of one for \<open>Ids\<close>.
\<close>

definition ids_mapstructure :: "(string list \<times> string) mapstructure" where
  "ids_mapstructure =
     \<lparr>ms_NewDecoder = (\<lambda>v. None),
      ms_Decode = (\<lambda>params (ids, name).
         case params ''name'' of
           Some (PList xs) \<Rightarrow>
             (Some (ErrorString (''decoding failed due to the following error(s):''
                @ [CHR 0x0A, CHR 0x0A, CHR 0x27] @ ''Name'' @ [CHR 0x27]
                @ '' expected type string'')), (ids, name))
         | Some (PString x) \<Rightarrow>
             (None, (case params ''ids'' of
                       Some (PList xs) \<Rightarrow> xs
                     | Some (PString y) \<Rightarrow> [y]
                     | None \<Rightarrow> ids), x)
         | None \<Rightarrow>
             (None, (case params ''ids'' of
                       Some (PList xs) \<Rightarrow> xs
                     | Some (PString y) \<Rightarrow> [y]
                     | None \<Rightarrow> ids), name))\<rparr>"


section \<open>Properties\<close>

subsection \<open>Writing a response\<close>

lemma encode_result: "encode status body [] s = (None, s\<lparr>rsp := rsp s @ response_calls status body\<rparr>)"
  by (simp add: encode_def json_Marshal_def rsp_Write_def rsp_call_def response_calls_def)

lemma internalServerError_result:
  "internalServerError s =
     s\<lparr>rsp := rsp s @ response_calls 500
        \<lparr>er_Status = 500, er_Error = ''INTERNAL_ERROR'',
         er_Message = ''Something went wrong'', er_Errors = None\<rparr>\<rparr>"
  by (simp add: internalServerError_def InternalServerError_def encode_result
      StatusInternalServerError_def)

lemma sendDomainErrorResponse_result:
  "sendDomainErrorResponse d s =
     s\<lparr>rsp := rsp s @ response_calls 400
        \<lparr>er_Status = 400, er_Error = ''DOMAIN_ERROR'',
         er_Message = de_Message d, er_Errors = None\<rparr>\<rparr>"
  by (simp add: sendDomainErrorResponse_def BadRequest_def encode_result StatusBadRequest_def)

lemma sendNotFoundErrorResponse_result:
  "sendNotFoundErrorResponse d s =
     s\<lparr>rsp := rsp s @ response_calls 404
        \<lparr>er_Status = 404, er_Error = ''DOMAIN_ERROR'',
         er_Message = de_Message d, er_Errors = None\<rparr>\<rparr>"
  by (simp add: sendNotFoundErrorResponse_def NotFound_def encode_result StatusNotFound_def)

lemma sendDecodeErrorResponse_result:
  "sendDecodeErrorResponse b s =
     s\<lparr>rsp := rsp s @ response_calls 400
        \<lparr>er_Status = 400, er_Error = ''DECODE_ERROR'',
         er_Message = be_Message b, er_Errors = be_Errors b\<rparr>\<rparr>"
  by (simp add: sendDecodeErrorResponse_def BadRequest_def encode_result StatusBadRequest_def)

lemma sendValidationErrorResponse_result:
  "sendValidationErrorResponse v s =
     s\<lparr>rsp := rsp s @ response_calls 400
        \<lparr>er_Status = 400, er_Error = ''VALIDATION_ERROR'',
         er_Message = ''Invalid Request'', er_Errors = Some (ExtractFieldErrors s v)\<rparr>\<rparr>"
  by (simp add: sendValidationErrorResponse_def BadRequest_def encode_result StatusBadRequest_def)

text \<open>
  C7. When the write of a classified error response fails, the sender is meant to see
  the failure, log it and attempt one internal-error write. On a connection whose
  \<open>Write\<close> returns an error, \<open>encode\<close> still returns \<open>nil\<close>: the senders log nothing
  and make no second write, so their fallback branch is not taken.
\<close>

theorem C7_write_failure_not_propagated:
  "fst (encode status body [] (s\<lparr>rsp_Write_err := Some werr\<rparr>)) = None
   \<and> logs (sendDomainErrorResponse d (s\<lparr>rsp_Write_err := Some werr\<rparr>)) = logs s
   \<and> rsp (sendDomainErrorResponse d (s\<lparr>rsp_Write_err := Some werr\<rparr>))
       = rsp s @ response_calls 400
           \<lparr>er_Status = 400, er_Error = ''DOMAIN_ERROR'',
            er_Message = de_Message d, er_Errors = None\<rparr>
   \<and> logs (sendDecodeErrorResponse b (s\<lparr>rsp_Write_err := Some werr\<rparr>)) = logs s
   \<and> rsp (sendDecodeErrorResponse b (s\<lparr>rsp_Write_err := Some werr\<rparr>))
       = rsp s @ response_calls 400
           \<lparr>er_Status = 400, er_Error = ''DECODE_ERROR'',
            er_Message = be_Message b, er_Errors = be_Errors b\<rparr>"
  by (simp add: encode_result sendDomainErrorResponse_result sendDecodeErrorResponse_result)

subsection \<open>Classification of handler errors\<close>

lemma rsp_log_Error [simp]: "rsp (log_Error m a s) = rsp s"
  by (simp add: log_Error_def)

lemma ExtractFieldErrors_log_Error [simp]:
  "ExtractFieldErrors (log_Error m a s) v = ExtractFieldErrors s v"
  by (simp add: ExtractFieldErrors_def log_Error_def)

lemma response_calls_inject [simp]:
  "(response_calls st b = response_calls st' b') = (st = st' \<and> b = b')"
  by (auto simp: response_calls_def)

text \<open>
  C1. When the handler chain returns an error, \<open>handleRequest\<close> returns normally and
  makes exactly one response, chosen by the first of these tests that succeeds on the
  error chain: BindingError gives 400, \<open>DECODE_ERROR\<close>, the binding error's message and
  its field map; ValidationError gives 400, \<open>VALIDATION_ERROR\<close>, "Invalid Request";
  NotFoundError gives 404, \<open>DOMAIN_ERROR\<close> and its message; DomainError gives 400,
  \<open>DOMAIN_ERROR\<close> and its message; anything else gives 500, \<open>INTERNAL_ERROR\<close>,
  "Something went wrong". An error that matches NotFoundError is never answered with
  the 400 domain-error response, even when it also matches DomainError.
\<close>

theorem C1_error_classification:
  assumes "h ctx s = (Returns (Some err), s1)"
  shows "fst (handleRequest ctx h s) = Returns ()
    \<and> (\<forall>b. errors_As as_BindingError err = Some b \<longrightarrow>
          rsp (snd (handleRequest ctx h s)) = rsp s1 @ response_calls 400
            \<lparr>er_Status = 400, er_Error = ''DECODE_ERROR'',
             er_Message = be_Message b, er_Errors = be_Errors b\<rparr>)
    \<and> (\<forall>v. errors_As as_BindingError err = None \<longrightarrow> errors_As as_valid_Errors err = Some v \<longrightarrow>
          rsp (snd (handleRequest ctx h s)) = rsp s1 @ response_calls 400
            \<lparr>er_Status = 400, er_Error = ''VALIDATION_ERROR'',
             er_Message = ''Invalid Request'', er_Errors = Some (ExtractFieldErrors s1 v)\<rparr>)
    \<and> (\<forall>n. errors_As as_BindingError err = None \<longrightarrow> errors_As as_valid_Errors err = None \<longrightarrow>
          errors_As as_NotFoundError err = Some n \<longrightarrow>
          rsp (snd (handleRequest ctx h s)) = rsp s1 @ response_calls 404
            \<lparr>er_Status = 404, er_Error = ''DOMAIN_ERROR'',
             er_Message = de_Message n, er_Errors = None\<rparr>)
    \<and> (\<forall>d. errors_As as_BindingError err = None \<longrightarrow> errors_As as_valid_Errors err = None \<longrightarrow>
          errors_As as_NotFoundError err = None \<longrightarrow> errors_As as_DomainError err = Some d \<longrightarrow>
          rsp (snd (handleRequest ctx h s)) = rsp s1 @ response_calls 400
            \<lparr>er_Status = 400, er_Error = ''DOMAIN_ERROR'',
             er_Message = de_Message d, er_Errors = None\<rparr>)
    \<and> (errors_As as_BindingError err = None \<longrightarrow> errors_As as_valid_Errors err = None \<longrightarrow>
          errors_As as_NotFoundError err = None \<longrightarrow> errors_As as_DomainError err = None \<longrightarrow>
          rsp (snd (handleRequest ctx h s)) = rsp s1 @ response_calls 500
            \<lparr>er_Status = 500, er_Error = ''INTERNAL_ERROR'',
             er_Message = ''Something went wrong'', er_Errors = None\<rparr>)
    \<and> (\<forall>n m. errors_As as_NotFoundError err = Some n \<longrightarrow>
          rsp (snd (handleRequest ctx h s)) \<noteq> rsp s1 @ response_calls 400
            \<lparr>er_Status = 400, er_Error = ''DOMAIN_ERROR'', er_Message = m, er_Errors = None\<rparr>)"
  using assms
  by (simp add: handleRequest_def handleRequest_body_def sendDecodeErrorResponse_result
      sendValidationErrorResponse_result sendNotFoundErrorResponse_result
      sendDomainErrorResponse_result internalServerError_result Let_def
      split: option.splits)

text \<open>
  The handler returns a joined error holding a DomainError and, wrapped, a
  NotFoundError: the response is the 404 one. A wrapped BindingError, a DomainError
  and an error of no known type are answered with 400, 400 and 500.
\<close>

theorem C1_error_classification_witness:
  "rsp (snd (handleRequest ctx0
       (\<lambda>c s. (Returns (Some (Join [DomainErr \<lparr>de_Code = [], de_Message = ''quota exceeded''\<rparr>,
                  Wrap ''lookup: no such item''
                    (NotFoundErr \<lparr>de_Code = [], de_Message = ''no such item''\<rparr>)])), s)) conn0))
     = response_calls 404 \<lparr>er_Status = 404, er_Error = ''DOMAIN_ERROR'',
                            er_Message = ''no such item'', er_Errors = None\<rparr>
   \<and> rsp (snd (handleRequest ctx0
       (\<lambda>c s. (Returns (Some (Wrap ''decode: body must be valid JSON''
                  (BindingErr \<lparr>be_Message = ''body must be valid JSON'', be_Errors = None\<rparr>))), s))
       conn0))
     = response_calls 400 \<lparr>er_Status = 400, er_Error = ''DECODE_ERROR'',
                            er_Message = ''body must be valid JSON'', er_Errors = None\<rparr>
   \<and> rsp (snd (handleRequest ctx0
       (\<lambda>c s. (Returns (Some (DomainErr \<lparr>de_Code = [], de_Message = ''quota exceeded''\<rparr>)), s))
       conn0))
     = response_calls 400 \<lparr>er_Status = 400, er_Error = ''DOMAIN_ERROR'',
                            er_Message = ''quota exceeded'', er_Errors = None\<rparr>
   \<and> rsp (snd (handleRequest ctx0 (\<lambda>c s. (Returns (Some (ErrorString ''disk full'')), s)) conn0))
     = response_calls 500 \<lparr>er_Status = 500, er_Error = ''INTERNAL_ERROR'',
                            er_Message = ''Something went wrong'', er_Errors = None\<rparr>"
  using
    C1_error_classification [of
      "\<lambda>c s. (Returns (Some (Join [DomainErr \<lparr>de_Code = [], de_Message = ''quota exceeded''\<rparr>,
                  Wrap ''lookup: no such item''
                    (NotFoundErr \<lparr>de_Code = [], de_Message = ''no such item''\<rparr>)])), s)"
      ctx0 conn0 _ conn0]
    C1_error_classification [of
      "\<lambda>c s. (Returns (Some (Wrap ''decode: body must be valid JSON''
                  (BindingErr \<lparr>be_Message = ''body must be valid JSON'', be_Errors = None\<rparr>))), s)"
      ctx0 conn0 _ conn0]
    C1_error_classification [of
      "\<lambda>c s. (Returns (Some (DomainErr \<lparr>de_Code = [], de_Message = ''quota exceeded''\<rparr>)), s)"
      ctx0 conn0 _ conn0]
    C1_error_classification [of
      "\<lambda>c s. (Returns (Some (ErrorString ''disk full'')), s)" ctx0 conn0 _ conn0]
  by (simp add: conn0_def as_BindingError_def as_valid_Errors_def as_NotFoundError_def
      as_DomainError_def)

subsection \<open>Panic containment\<close>

text \<open>
  C2. No panic leaves \<open>handleRequest\<close>, whatever the handler chain does. When the
  chain panics, \<open>handleRequest\<close> returns normally, logs the panic with the request's
  method and URI, and writes the response 500, \<open>INTERNAL_ERROR\<close>, "Something went
  wrong"; beyond this response and the log entry it leaves the state the handler
  left, so later requests are served as before.
\<close>

theorem C2_panic_contained:
  "(\<forall>q. fst (handleRequest ctx h s) \<noteq> Panics q)
   \<and> (\<forall>p s1. h ctx s = (Panics p, s1) \<longrightarrow>
        fst (handleRequest ctx h s) = Returns ()
        \<and> rsp (snd (handleRequest ctx h s)) = rsp s1 @ response_calls 500
             \<lparr>er_Status = 500, er_Error = ''INTERNAL_ERROR'',
              er_Message = ''Something went wrong'', er_Errors = None\<rparr>
        \<and> logs (snd (handleRequest ctx h s)) = logs s1 @
             [(ErrorLevel, ''mux: Panic in request handler'',
               [AStr ''method'', AStr (ctx_Method ctx), AStr ''url'', AStr (ctx_URI ctx),
                AStr ''error'', APanic p])]
        \<and> fieldCache (snd (handleRequest ctx h s)) = fieldCache s1
        \<and> rsp_Write_err (snd (handleRequest ctx h s)) = rsp_Write_err s1)"
  by (simp add: handleRequest_def handleRequest_body_def internalServerError_result
      log_Error_def Let_def split: prod.splits outcome.splits option.splits)

theorem C2_panic_contained_witness:
  "handleRequest ctx0 (\<lambda>c s. (Panics (PanicVal ''index out of range''), s)) conn0
     = (Returns (),
        conn0\<lparr>rsp := response_calls 500
                 \<lparr>er_Status = 500, er_Error = ''INTERNAL_ERROR'',
                  er_Message = ''Something went wrong'', er_Errors = None\<rparr>,
              logs := [(ErrorLevel, ''mux: Panic in request handler'',
                        [AStr ''method'', AStr ''GET'', AStr ''url'', AStr ''/items/7'',
                         AStr ''error'', APanic (PanicVal ''index out of range'')])]\<rparr>)"
proof -
  let ?h = "\<lambda>(c::Context) (s::state). (Panics (PanicVal ''index out of range'') :: error option outcome, s)"
  have call: "?h ctx0 conn0 = (Panics (PanicVal ''index out of range''), conn0)"
    by simp
  from C2_panic_contained [of ctx0 ?h conn0] call
  have r: "fst (handleRequest ctx0 ?h conn0) = Returns ()"
    and w: "rsp (snd (handleRequest ctx0 ?h conn0)) = rsp conn0 @ response_calls 500
             \<lparr>er_Status = 500, er_Error = ''INTERNAL_ERROR'',
              er_Message = ''Something went wrong'', er_Errors = None\<rparr>"
    and l: "logs (snd (handleRequest ctx0 ?h conn0)) = logs conn0 @
             [(ErrorLevel, ''mux: Panic in request handler'',
               [AStr ''method'', AStr (ctx_Method ctx0), AStr ''url'', AStr (ctx_URI ctx0),
                AStr ''error'', APanic (PanicVal ''index out of range'')])]"
    and f: "fieldCache (snd (handleRequest ctx0 ?h conn0)) = fieldCache conn0"
    and e: "rsp_Write_err (snd (handleRequest ctx0 ?h conn0)) = rsp_Write_err conn0"
    by blast+
  obtain o' s' where hs: "handleRequest ctx0 ?h conn0 = (o', s')"
    by (cases "handleRequest ctx0 ?h conn0")
  from r w l f e hs show ?thesis
    by (simp add: conn0_def ctx0_def)
qed

subsection \<open>Middleware composition\<close>

lemma applyMiddlewares_loop_take:
  "n \<le> length ms \<Longrightarrow> applyMiddlewares_loop ms (int n - 1) h = foldr (\<lambda>m h. m h) (take n ms) h"
proof (induction n arbitrary: h)
  case 0
  then show ?case by simp
next
  case (Suc n)
  have "applyMiddlewares_loop ms (int (Suc n) - 1) h
          = applyMiddlewares_loop ms (int n - 1) ((ms ! n) h)"
    by (subst applyMiddlewares_loop.simps) simp
  also have "\<dots> = foldr (\<lambda>m h. m h) (take n ms) ((ms ! n) h)"
    using Suc by simp
  also have "\<dots> = foldr (\<lambda>m h. m h) (take (Suc n) ms) h"
    using Suc.prems by (simp add: take_Suc_conv_app_nth)
  finally show ?case .
qed

lemma applyMiddlewares_foldr: "applyMiddlewares r h = foldr (\<lambda>m h. m h) (mwares r) h"
  using applyMiddlewares_loop_take [of "length (mwares r)" "mwares r" h]
  by (simp add: applyMiddlewares_def)

text \<open>
  C5. \<open>applyMiddlewares\<close> wraps the handler with the registered middleware from the
  last registered to the first, so the first registered is outermost: for middleware
  registered as \<open>[A, B]\<close> (in one \<open>Use\<close> call or two) the compiled handler is
  \<open>A (B H)\<close>. With middleware that act on the way in and on the way out, the order
  is A in, B in, H, B out, A out. \<open>ListenAndServe\<close> registers this compiled handler,
  adapted by \<open>httpHandler\<close>, under each pattern.
\<close>

theorem C5_middleware_order:
  "applyMiddlewares r H = foldr (\<lambda>m h. m h) (mwares r) H
   \<and> applyMiddlewares (Use [A, B] (NewRouter cfg)) H = A (B H)
   \<and> applyMiddlewares (Use [B] (Use [A] (NewRouter cfg))) H = A (B H)
   \<and> applyMiddlewares (Use [around preA postA, around preB postB] (NewRouter cfg)) H ctx s
       = (case H ctx (preB (preA s)) of
            (Returns e, s1) \<Rightarrow> (Returns e, postA (postB s1))
          | (Panics p, s1) \<Rightarrow> (Panics p, s1)
          | (Exits c, s1) \<Rightarrow> (Exits c, s1))
   \<and> (\<forall>pattern. handlers r pattern = Some H \<longrightarrow>
        mux (fst (snd (ListenAndServe r None ev shutdown s))) pattern
          = Some (httpHandler (foldr (\<lambda>m h. m h) (mwares r) H)))"
  by (auto simp add: applyMiddlewares_foldr Use_def NewRouter_def around_def
      ListenAndServe_def Let_def
      split: prod.splits outcome.splits terminal_event.splits option.splits)



text \<open>Two logging middleware around a logging handler, run on a request.\<close>

theorem C5_middleware_order_witness:
  "logs (snd (applyMiddlewares
        (Use [around (log_Info ''A: in'' []) (log_Info ''A: out'' []),
              around (log_Info ''B: in'' []) (log_Info ''B: out'' [])] (NewRouter cfg0))
        (\<lambda>c s. (Returns None, log_Info ''H'' [] s)) ctx0 conn0))
   = [(InfoLevel, ''A: in'', []), (InfoLevel, ''B: in'', []), (InfoLevel, ''H'', []),
      (InfoLevel, ''B: out'', []), (InfoLevel, ''A: out'', [])]"
  using C5_middleware_order [where H = "\<lambda>c s. (Returns None, log_Info ''H'' [] s)"
      and preA = "log_Info ''A: in'' []" and postA = "log_Info ''A: out'' []"
      and preB = "log_Info ''B: in'' []" and postB = "log_Info ''B: out'' []"
      and cfg = cfg0 and ctx = ctx0 and s = conn0,
      THEN conjunct2, THEN conjunct2, THEN conjunct2, THEN conjunct1]
  by (simp add: log_Info_def conn0_def)

subsection \<open>Route registration\<close>

lemma Handle_found:
  "handlers r pattern = Some h0 \<Longrightarrow>
   Handle pattern h r s =
     (Exits 1, s\<lparr>logs := logs s @
        [(FatalLevel, ''mux: Handler already exists'', [AStr ''pattern'', AStr pattern])]\<rparr>)"
  by (simp add: Handle_def log_Fatal_def)

lemma Handle_fresh:
  "handlers r pattern = None \<Longrightarrow>
   Handle pattern h r s = (Returns (r\<lparr>handlers := (handlers r)(pattern \<mapsto> h)\<rparr>), s)"
  by (simp add: Handle_def)

lemma register_routes_distinct:
  "distinct (map fst routes) \<Longrightarrow> \<forall>p \<in> fst ` set routes. handlers r p = None \<Longrightarrow>
   register_routes routes r s =
     (Returns (r\<lparr>handlers := (\<lambda>p. case map_of routes p of Some h \<Rightarrow> Some h
                                      | None \<Rightarrow> handlers r p)\<rparr>), s)"
proof (induction routes arbitrary: r)
  case Nil
  then show ?case by simp
next
  case (Cons a routes)
  obtain p h where a: "a = (p, h)" by (cases a)
  let ?r1 = "r\<lparr>handlers := (handlers r)(p \<mapsto> h)\<rparr>"
  from Cons.prems a have fresh: "handlers r p = None" by simp
  from Cons.prems a have d: "distinct (map fst routes)" and np: "p \<notin> fst ` set routes"
    by auto
  from Cons.prems a np have "\<forall>q \<in> fst ` set routes. handlers ?r1 q = None"
    by auto
  from Cons.IH [OF d this]
  have "register_routes routes ?r1 s =
     (Returns (?r1\<lparr>handlers := (\<lambda>q. case map_of routes q of Some h \<Rightarrow> Some h
                                      | None \<Rightarrow> handlers ?r1 q)\<rparr>), s)" .
  moreover have "(\<lambda>q. case map_of routes q of Some h \<Rightarrow> Some h | None \<Rightarrow> handlers ?r1 q)
      = (\<lambda>q. case map_of ((p, h) # routes) q of Some h \<Rightarrow> Some h | None \<Rightarrow> handlers r q)"
  proof (rule ext)
    fix q
    from np have "map_of routes p = None" by (simp add: map_of_eq_None_iff)
    then show "(case map_of routes q of Some h \<Rightarrow> Some h | None \<Rightarrow> handlers ?r1 q)
      = (case map_of ((p, h) # routes) q of Some h \<Rightarrow> Some h | None \<Rightarrow> handlers r q)"
      by (cases "q = p") (simp_all split: option.splits)
  qed
  ultimately show ?case
    using a fresh by (simp add: Handle_fresh)
qed

lemma register_routes_duplicate:
  "\<not> (distinct (map fst routes) \<and> (\<forall>p \<in> fst ` set routes. handlers r p = None)) \<Longrightarrow>
   fst (register_routes routes r s) = Exits 1"
proof (induction routes arbitrary: r s)
  case Nil
  then show ?case by simp
next
  case (Cons a routes)
  obtain p h where a: "a = (p, h)" by (cases a)
  show ?case
  proof (cases "handlers r p")
    case (Some h0)
    then show ?thesis using a by (simp add: Handle_found)
  next
    case None
    let ?r1 = "r\<lparr>handlers := (handlers r)(p \<mapsto> h)\<rparr>"
    from Cons.prems a None
    have "\<not> (distinct (map fst routes) \<and> (\<forall>q \<in> fst ` set routes. handlers ?r1 q = None))"
      by auto
    from Cons.IH [OF this] show ?thesis
      using a None by (simp add: Handle_fresh)
  qed
qed

text \<open>
  C9. \<open>Handle\<close> with a pattern that is already registered logs a fatal entry and
  ends the process; it does not return and stores nothing. With a pattern that is not
  registered it stores the handler and returns. A start-up sequence of \<open>Handle\<close>
  calls on a new router returns the router with every handler stored when the
  patterns are distinct, and ends the process otherwise, before anything is served.
\<close>

theorem C9_duplicate_pattern_fatal:
  "(handlers r pattern \<noteq> None \<longrightarrow>
      Handle pattern h r s =
        (Exits 1, s\<lparr>logs := logs s @
           [(FatalLevel, ''mux: Handler already exists'', [AStr ''pattern'', AStr pattern])]\<rparr>))
   \<and> (handlers r pattern = None \<longrightarrow>
      Handle pattern h r s = (Returns (r\<lparr>handlers := (handlers r)(pattern \<mapsto> h)\<rparr>), s))
   \<and> (distinct (map fst routes) \<longrightarrow>
      register_routes routes (NewRouter cfg) s =
        (Returns ((NewRouter cfg)\<lparr>handlers := map_of routes\<rparr>), s))
   \<and> (\<not> distinct (map fst routes) \<longrightarrow>
      fst (register_routes routes (NewRouter cfg) s) = Exits 1)"
proof (intro conjI impI)
  assume "handlers r pattern \<noteq> None"
  then show "Handle pattern h r s =
        (Exits 1, s\<lparr>logs := logs s @
           [(FatalLevel, ''mux: Handler already exists'', [AStr ''pattern'', AStr pattern])]\<rparr>)"
    by (auto simp: Handle_found)
next
  assume "handlers r pattern = None"
  then show "Handle pattern h r s = (Returns (r\<lparr>handlers := (handlers r)(pattern \<mapsto> h)\<rparr>), s)"
    by (rule Handle_fresh)
next
  assume d: "distinct (map fst routes)"
  have "(\<lambda>p. case map_of routes p of Some h \<Rightarrow> Some h | None \<Rightarrow> handlers (NewRouter cfg) p)
          = map_of routes"
    by (rule ext) (simp add: NewRouter_def split: option.splits)
  with register_routes_distinct [OF d, of "NewRouter cfg" s]
  show "register_routes routes (NewRouter cfg) s =
        (Returns ((NewRouter cfg)\<lparr>handlers := map_of routes\<rparr>), s)"
    by (simp add: NewRouter_def)
next
  assume "\<not> distinct (map fst routes)"
  then show "fst (register_routes routes (NewRouter cfg) s) = Exits 1"
    by (simp add: register_routes_duplicate)
qed

text \<open>
  Registering \<open>/a\<close> twice ends the process with the fatal entry in the log;
  registering \<open>/a\<close> and \<open>/b\<close> returns the router holding both.
\<close>

theorem C9_duplicate_pattern_fatal_witness:
  "Handle ''/a'' (\<lambda>c s. (Returns None, s))
      ((NewRouter cfg0)\<lparr>handlers := [''/a'' \<mapsto> (\<lambda>c s. (Returns None, s))]\<rparr>) conn0
     = (Exits 1, conn0\<lparr>logs :=
          [(FatalLevel, ''mux: Handler already exists'', [AStr ''pattern'', AStr ''/a''])]\<rparr>)
   \<and> fst (register_routes [(''/a'', \<lambda>c s. (Returns None, s)), (''/a'', \<lambda>c s. (Returns None, s))]
          (NewRouter cfg0) conn0) = Exits 1
   \<and> register_routes [(''/a'', \<lambda>c s. (Returns None, s)), (''/b'', \<lambda>c s. (Returns None, s))]
          (NewRouter cfg0) conn0
       = (Returns ((NewRouter cfg0)\<lparr>handlers :=
            map_of [(''/a'', \<lambda>c s. (Returns None, s)), (''/b'', \<lambda>c s. (Returns None, s))]\<rparr>), conn0)"
  using
    C9_duplicate_pattern_fatal [where pattern = "''/a''" and s = conn0
      and h = "\<lambda>c s. (Returns None, s)"
      and r = "(NewRouter cfg0)\<lparr>handlers := [''/a'' \<mapsto> (\<lambda>c s. (Returns None, s))]\<rparr>",
      THEN conjunct1]
    C9_duplicate_pattern_fatal [where cfg = cfg0 and s = conn0
      and routes = "[(''/a'', \<lambda>c s. (Returns None, s)), (''/a'', \<lambda>c s. (Returns None, s))]",
      THEN conjunct2, THEN conjunct2, THEN conjunct2]
    C9_duplicate_pattern_fatal [where cfg = cfg0 and s = conn0
      and routes = "[(''/a'', \<lambda>c s. (Returns None, s)), (''/b'', \<lambda>c s. (Returns None, s))]",
      THEN conjunct2, THEN conjunct2, THEN conjunct1]
  by (simp add: conn0_def)

subsection \<open>Lifecycle\<close>

text \<open>
  C10. Once the routes are registered, the result of \<open>ListenAndServe\<close> is decided
  by the event that ends the wait. A listener error other than "server closed" is
  logged and returned; the server-closed error (or no error) gives \<open>nil\<close>. On a
  termination signal, a shutdown that completes gives \<open>nil\<close>; a shutdown that fails,
  as it does when the drain time-out expires, is logged as an error and its error is
  returned.
\<close>

theorem C10_ListenAndServe_result:
  "(\<forall>e. ev = ListenerDone (Some e) \<longrightarrow> \<not> errors_Is e ErrServerClosed \<longrightarrow>
       fst (ListenAndServe r None ev shutdown s) = Returns (Some e)
       \<and> logs (snd (snd (ListenAndServe r None ev shutdown s))) =
           logs s @ [(ErrorLevel, ''mux: Server error occurred'', [AStr ''error'', AErr e])])
   \<and> (\<forall>e. ev = ListenerDone (Some e) \<longrightarrow> errors_Is e ErrServerClosed \<longrightarrow>
       fst (ListenAndServe r None ev shutdown s) = Returns None)
   \<and> (ev = ListenerDone None \<longrightarrow> fst (ListenAndServe r None ev shutdown s) = Returns None)
   \<and> (ev = QuitSignal \<longrightarrow> shutdown (GracefulShutdown (config r)) = None \<longrightarrow>
       fst (ListenAndServe r None ev shutdown s) = Returns None)
   \<and> (\<forall>e. ev = QuitSignal \<longrightarrow> shutdown (GracefulShutdown (config r)) = Some e \<longrightarrow>
       fst (ListenAndServe r None ev shutdown s) = Returns (Some e)
       \<and> logs (snd (snd (ListenAndServe r None ev shutdown s))) =
           logs s @ [(InfoLevel, ''mux: Shutdown signal received, shutting down server...'', []),
                     (ErrorLevel, ''mux: Error during server shutdown'', [AStr ''error'', AErr e])])"
  by (simp add: ListenAndServe_def Let_def log_Error_def log_Info_def)

text \<open>
  A drain that needs five seconds, so that \<open>Shutdown\<close> fails with the context's
  deadline error when the time-out is shorter: with a time-out of two seconds the
  error is returned, with ten seconds the result is \<open>nil\<close>; a bind error of the
  listener is returned, the server-closed error is not.
\<close>

theorem C10_ListenAndServe_result_witness:
  "fst (ListenAndServe (NewRouter cfg0) None QuitSignal
          (\<lambda>t. if t < 5 then Some DeadlineExceeded else None) conn0) = Returns (Some DeadlineExceeded)
   \<and> fst (ListenAndServe (NewRouter (cfg0\<lparr>GracefulShutdown := 10\<rparr>)) None QuitSignal
          (\<lambda>t. if t < 5 then Some DeadlineExceeded else None) conn0) = Returns None
   \<and> fst (ListenAndServe (NewRouter cfg0) None
          (ListenerDone (Some (ErrorString ''listen tcp :8080: bind: address already in use'')))
          (\<lambda>t. None) conn0)
       = Returns (Some (ErrorString ''listen tcp :8080: bind: address already in use''))
   \<and> fst (ListenAndServe (NewRouter cfg0) None (ListenerDone (Some ErrServerClosed))
          (\<lambda>t. None) conn0) = Returns None"
  using
    C10_ListenAndServe_result [where r = "NewRouter cfg0" and ev = QuitSignal
      and shutdown = "\<lambda>t. if t < 5 then Some DeadlineExceeded else None" and s = conn0]
    C10_ListenAndServe_result [where r = "NewRouter (cfg0\<lparr>GracefulShutdown := 10\<rparr>)"
      and ev = QuitSignal
      and shutdown = "\<lambda>t. if t < 5 then Some DeadlineExceeded else None" and s = conn0]
    C10_ListenAndServe_result [where r = "NewRouter cfg0"
      and ev = "ListenerDone (Some (ErrorString ''listen tcp :8080: bind: address already in use''))"
      and shutdown = "\<lambda>t. None" and s = conn0]
    C10_ListenAndServe_result [where r = "NewRouter cfg0"
      and ev = "ListenerDone (Some ErrServerClosed)" and shutdown = "\<lambda>t. None" and s = conn0]
  by (simp add: NewRouter_def cfg0_def errors_Is_def)

subsection \<open>Failures of the JSON body decoder\<close>





lemma HasPrefix_append [simp]: "strings_HasPrefix (p @ s) p"
  by (simp add: strings_HasPrefix_def)

lemma TrimPrefix_append [simp]: "strings_TrimPrefix (p @ s) p = s"
  by (simp add: strings_TrimPrefix_def)







subsection \<open>The decode, normalize, validate pipeline\<close>

lemma Struct_result:
  assumes "ty_Fields t \<noteq> None \<or> fieldCache s (ty_String t) \<noteq> None"
  shows "fst (Struct t verr s) =
     Returns (case verr of
                None \<Rightarrow> None
              | Some e \<Rightarrow>
                  Some (case errors_As as_validationErrors e of
                          Some vs \<Rightarrow> ValidErr \<lparr>cacheKey = ty_String t, ValidationErrors = vs\<rparr>
                        | None \<Rightarrow> e))"
  using assms
  by (auto simp: Struct_def cacheTypeFields_def structCacheKey_def Let_def
      split: option.splits)

lemma Struct_panics:
  assumes "ty_Fields t = None" and "fieldCache s (ty_String t) = None"
  shows "Struct t verr s = (Panics (PanicVal ''reflect: NumField of non-struct type''), s)"
  using assms
  by (simp add: Struct_def cacheTypeFields_def structCacheKey_def)

lemma Decode_failed:
  assumes "decode decoder body v = (Returns (Some e), v1)"
  shows "Decode decoder tg ctx body v s = (Returns (Some e), v1, s)"
  using assms by (simp add: Decode_def)

lemma Decode_panicked:
  assumes "decode decoder body v = (Panics p, v1)"
  shows "Decode decoder tg ctx body v s = (Panics p, v1, s)"
  using assms by (simp add: Decode_def)

lemma Decode_decoded:
  assumes "decode decoder body v = (Returns None, v1)"
  shows "Decode decoder tg ctx body v s =
     (let v2 = (case tg_Normalizer tg of Some normalizer \<Rightarrow> normalizer ctx v1 | None \<Rightarrow> v1)
      in (fst (Struct (tg_type tg) (tg_validate tg v2) s), v2,
          snd (Struct (tg_type tg) (tg_validate tg v2) s)))"
  using assms by (simp add: Decode_def Let_def split: prod.splits)

lemma DecodeURL_failed:
  assumes "decodeURL lib query v = (Some e, v1)"
  shows "DecodeURL lib tg ctx query v s = (Returns (Some e), v1, s)"
  using assms by (simp add: DecodeURL_def)

lemma DecodeURL_decoded:
  assumes "decodeURL lib query v = (None, v1)"
  shows "DecodeURL lib tg ctx query v s =
     (let v2 = (case tg_Normalizer tg of Some normalizer \<Rightarrow> normalizer ctx v1 | None \<Rightarrow> v1)
      in (fst (Struct (tg_type tg) (tg_validate tg v2) s), v2,
          snd (Struct (tg_type tg) (tg_validate tg v2) s)))"
  using assms by (simp add: DecodeURL_def Let_def split: prod.splits)

text \<open>
  C4. \<open>Context.Decode\<close> decodes first. When decoding returns an error (or panics),
  that is the result for every target description: neither \<open>Normalize\<close> nor the
  validation is consulted, and the state is untouched. When decoding succeeds, the
  target is the decoded value after \<open>Normalize\<close> (when the type has it), and for a
  struct target the result is the validation of that normalized value: \<open>nil\<close> when
  the validator accepts it, the validation error otherwise. \<open>Context.DecodeURL\<close> is
  the same pipeline over \<open>decodeURL\<close>.
\<close>

theorem C4_decode_pipeline:
  "(\<forall>e v1. decode decoder body v = (Returns (Some e), v1) \<longrightarrow>
      (\<forall>tg'. Decode decoder tg' ctx body v s = (Returns (Some e), v1, s)))
   \<and> (\<forall>p v1. decode decoder body v = (Panics p, v1) \<longrightarrow>
      (\<forall>tg'. Decode decoder tg' ctx body v s = (Panics p, v1, s)))
   \<and> (\<forall>v1 v2. decode decoder body v = (Returns None, v1) \<longrightarrow>
        v2 = (case tg_Normalizer tg of Some normalizer \<Rightarrow> normalizer ctx v1 | None \<Rightarrow> v1) \<longrightarrow>
        fst (snd (Decode decoder tg ctx body v s)) = v2
        \<and> (ty_Fields (tg_type tg) \<noteq> None \<or> fieldCache s (ty_String (tg_type tg)) \<noteq> None \<longrightarrow>
             fst (Decode decoder tg ctx body v s) =
               Returns (case tg_validate tg v2 of
                          None \<Rightarrow> None
                        | Some e \<Rightarrow>
                            Some (case errors_As as_validationErrors e of
                                    Some vs \<Rightarrow> ValidErr \<lparr>cacheKey = ty_String (tg_type tg),
                                                         ValidationErrors = vs\<rparr>
                                  | None \<Rightarrow> e))))
   \<and> (\<forall>e v1. decodeURL lib query w = (Some e, v1) \<longrightarrow>
      (\<forall>tg'. DecodeURL lib tg' ctx query w s = (Returns (Some e), v1, s)))
   \<and> (\<forall>v1 v2. decodeURL lib query w = (None, v1) \<longrightarrow>
        v2 = (case tg_Normalizer tg of Some normalizer \<Rightarrow> normalizer ctx v1 | None \<Rightarrow> v1) \<longrightarrow>
        fst (snd (DecodeURL lib tg ctx query w s)) = v2
        \<and> (ty_Fields (tg_type tg) \<noteq> None \<or> fieldCache s (ty_String (tg_type tg)) \<noteq> None \<longrightarrow>
             fst (DecodeURL lib tg ctx query w s) =
               Returns (case tg_validate tg v2 of
                          None \<Rightarrow> None
                        | Some e \<Rightarrow>
                            Some (case errors_As as_validationErrors e of
                                    Some vs \<Rightarrow> ValidErr \<lparr>cacheKey = ty_String (tg_type tg),
                                                         ValidationErrors = vs\<rparr>
                                  | None \<Rightarrow> e))))"
  by (simp add: Decode_failed Decode_panicked Decode_decoded DecodeURL_failed DecodeURL_decoded
      Struct_result Let_def)


text \<open>
  A truncated body gives the binding error although the empty target would fail
  validation; the name \<open>BOB\<close> is lowercased before it is validated, so both
  pipelines accept it.
\<close>

theorem C4_decode_pipeline_witness:
  \<open>Decode name_decoder name_target ctx0 ''{"name":'' [] conn0
     = (Returns (Some (BindingErr (newBindingError
          ''body contains badly-formed JSON and can not be parsed''))), [], conn0)
   \<and> fst (Decode name_decoder name_target ctx0 ''{"name":"BOB"}'' [] conn0) = Returns None
   \<and> fst (snd (Decode name_decoder name_target ctx0 ''{"name":"BOB"}'' [] conn0)) = ''bob''
   \<and> fst (DecodeURL name_mapstructure name_target ctx0 [''name'' \<mapsto> [''BOB'']] [] conn0)
       = Returns None
   \<and> fst (snd (DecodeURL name_mapstructure name_target ctx0 [''name'' \<mapsto> [''BOB'']] [] conn0))
       = ''bob''\<close>
proof -
  have bad: \<open>decode name_decoder ''{"name":'' []
      = (Returns (Some (BindingErr (newBindingError
          ''body contains badly-formed JSON and can not be parsed''))), [])\<close>
    by (simp add: decode_def name_decoder_def MaxBytesReader_def Let_def errors_Is_def
        as_InvalidUnmarshalError_def as_MaxBytesError_def as_SyntaxError_def
        strings_HasPrefix_def)
  have good: \<open>decode name_decoder ''{"name":"BOB"}'' [] = (Returns None, ''BOB'')\<close>
    by (simp add: decode_def name_decoder_def MaxBytesReader_def Let_def)
  have url: "decodeURL name_mapstructure [''name'' \<mapsto> [''BOB'']] [] = (None, ''BOB'')"
    by (simp add: decodeURL_def name_mapstructure_def Let_def)
  have low: "strings_ToLower ''BOB'' = ''bob''"
    by (simp add: strings_ToLower_def toLower_char_def)
  note pipeline = C4_decode_pipeline [where decoder = name_decoder and tg = name_target
      and ctx = ctx0 and s = conn0 and lib = name_mapstructure]
  have low': "strings_ToLower ''bob'' = ''bob''"
    by (simp add: strings_ToLower_def toLower_char_def)
  have norm: "(case tg_Normalizer name_target of Some normalizer \<Rightarrow> normalizer ctx0 ''BOB''
               | None \<Rightarrow> ''BOB'') = ''bob''"
    by (simp add: name_target_def low)
  have struct: "ty_Fields (tg_type name_target) \<noteq> None
      \<or> fieldCache conn0 (ty_String (tg_type name_target)) \<noteq> None"
    by (simp add: name_target_def)
  have valid: "tg_validate name_target ''bob'' = None"
    by (simp add: name_target_def low')
  from pipeline [THEN conjunct1, rule_format, OF bad]
  have 1: \<open>Decode name_decoder name_target ctx0 ''{"name":'' [] conn0
     = (Returns (Some (BindingErr (newBindingError
          ''body contains badly-formed JSON and can not be parsed''))), [], conn0)\<close> .
  from pipeline [THEN conjunct2, THEN conjunct2, THEN conjunct1, rule_format, OF good norm [symmetric]]
  have 2: \<open>fst (snd (Decode name_decoder name_target ctx0 ''{"name":"BOB"}'' [] conn0)) = ''bob''\<close>
    and 3: \<open>fst (Decode name_decoder name_target ctx0 ''{"name":"BOB"}'' [] conn0) = Returns None\<close>
    using struct valid by auto
  from pipeline [THEN conjunct2, THEN conjunct2, THEN conjunct2, THEN conjunct2, rule_format,
            OF url norm [symmetric]]
  have 4: "fst (snd (DecodeURL name_mapstructure name_target ctx0 [''name'' \<mapsto> [''BOB'']] [] conn0))
       = ''bob''"
    and 5: "fst (DecodeURL name_mapstructure name_target ctx0 [''name'' \<mapsto> [''BOB'']] [] conn0)
       = Returns None"
    using struct valid by auto
  from 1 2 3 4 5 show ?thesis by simp
qed

subsection \<open>Query decoding\<close>

lemma decodeURL_params:
  "(\<lambda>key. case query key of
            None \<Rightarrow> None
          | Some values \<Rightarrow>
              if length values = 1 then Some (PString (values ! 0)) else Some (PList values))
     = flattened_query query"
proof (rule ext)
  fix key
  show "(case query key of
            None \<Rightarrow> None
          | Some values \<Rightarrow>
              if length values = 1 then Some (PString (values ! 0)) else Some (PList values))
     = flattened_query query key"
  proof (cases "query key")
    case None
    then show ?thesis by (simp add: flattened_query_def)
  next
    case (Some vs)
    then show ?thesis
      by (cases vs; cases "tl vs") (simp_all add: flattened_query_def)
  qed
qed

text \<open>
  C6. The mapping that \<open>decodeURL\<close> hands to the query decoder sends each key with
  exactly one value to that string and each key with more than one value to the
  ordered list of its values; keys that are absent stay absent. The target and the
  success of \<open>decodeURL\<close> are those of the decoder on this mapping.
\<close>

theorem C6_query_flattening:
  "(ms_NewDecoder lib v = None \<longrightarrow>
      snd (decodeURL lib query v) = snd (ms_Decode lib (flattened_query query) v)
      \<and> (fst (decodeURL lib query v) = None
           \<longleftrightarrow> fst (ms_Decode lib (flattened_query query) v) = None))
   \<and> (\<forall>key x. query key = Some [x] \<longrightarrow> flattened_query query key = Some (PString x))
   \<and> (\<forall>key values. query key = Some values \<longrightarrow> length values > 1 \<longrightarrow>
        flattened_query query key = Some (PList values))
   \<and> (\<forall>key. query key = None \<longrightarrow> flattened_query query key = None)"
proof (intro conjI impI allI)
  fix key vs
  assume "query key = Some vs" and "length vs > 1"
  then show "flattened_query query key = Some (PList vs)"
    by (cases vs; cases "tl vs") (simp_all add: flattened_query_def)
next
  assume "ms_NewDecoder lib v = None"
  then show "snd (decodeURL lib query v) = snd (ms_Decode lib (flattened_query query) v)"
    by (simp add: decodeURL_def decodeURL_params Let_def split: prod.splits option.splits)
next
  assume "ms_NewDecoder lib v = None"
  then show "(fst (decodeURL lib query v) = None)
           = (fst (ms_Decode lib (flattened_query query) v) = None)"
    by (simp add: decodeURL_def decodeURL_params Let_def split: prod.splits option.splits)
qed (simp_all add: flattened_query_def)

text \<open>
  The query \<open>?ids=1&ids=2&name=bob\<close> gives \<open>Ids = ["1", "2"]\<close> and
  \<open>Name = "bob"\<close>; the query \<open>?name=bob\<close> gives \<open>Name = "bob"\<close>, passed as a
  string and not as a list.
\<close>

theorem C6_query_flattening_witness:
  "decodeURL ids_mapstructure [''ids'' \<mapsto> [''1'', ''2''], ''name'' \<mapsto> [''bob'']] ([], [])
     = (None, ([''1'', ''2''], ''bob''))
   \<and> decodeURL ids_mapstructure [''name'' \<mapsto> [''bob'']] ([], []) = (None, ([], ''bob''))
   \<and> flattened_query [''ids'' \<mapsto> [''1'', ''2''], ''name'' \<mapsto> [''bob'']] ''ids''
       = Some (PList [''1'', ''2''])
   \<and> flattened_query [''ids'' \<mapsto> [''1'', ''2''], ''name'' \<mapsto> [''bob'']] ''name''
       = Some (PString ''bob'')
   \<and> flattened_query [''name'' \<mapsto> [''bob'']] ''name'' = Some (PString ''bob'')"
proof -
  let ?q2 = "[''ids'' \<mapsto> [''1'', ''2''], ''name'' \<mapsto> [''bob'']]"
  let ?q1 = "[''name'' \<mapsto> [''bob'']] :: string \<rightharpoonup> string list"
  have new: "ms_NewDecoder ids_mapstructure v = None" for v
    by (simp add: ids_mapstructure_def)
  have ids: "flattened_query ?q2 ''ids'' = Some (PList [''1'', ''2''])"
    using C6_query_flattening [where query = ?q2, THEN conjunct2, THEN conjunct2, THEN conjunct1,
        rule_format, of "''ids''" "[''1'', ''2'']"]
    by simp
  have name2: "flattened_query ?q2 ''name'' = Some (PString ''bob'')"
    using C6_query_flattening [where query = ?q2, THEN conjunct2, THEN conjunct1,
        rule_format, of "''name''" "''bob''"]
    by simp
  have name1: "flattened_query ?q1 ''name'' = Some (PString ''bob'')"
    using C6_query_flattening [where query = ?q1, THEN conjunct2, THEN conjunct1,
        rule_format, of "''name''" "''bob''"]
    by simp
  have none1: "flattened_query ?q1 ''ids'' = None"
    using C6_query_flattening [where query = ?q1, THEN conjunct2, THEN conjunct2, THEN conjunct2,
        rule_format, of "''ids''"]
    by simp
  from C6_query_flattening [where lib = ids_mapstructure and query = ?q2 and v = "([], [])",
      THEN conjunct1, rule_format, OF new] ids name2
  have r2: "decodeURL ids_mapstructure ?q2 ([], []) = (None, ([''1'', ''2''], ''bob''))"
    by (cases "decodeURL ids_mapstructure ?q2 ([], [])") (simp add: ids_mapstructure_def)
  from C6_query_flattening [where lib = ids_mapstructure and query = ?q1 and v = "([], [])",
      THEN conjunct1, rule_format, OF new] name1 none1
  have r1: "decodeURL ids_mapstructure ?q1 ([], []) = (None, ([], ''bob''))"
    by (cases "decodeURL ids_mapstructure ?q1 ([], [])") (simp add: ids_mapstructure_def)
  from r2 r1 ids name2 name1 show ?thesis by simp
qed

end
